theory Spec2Isabelle
  imports Complex_Main "HOL-Library.AList"
begin

section \<open>Extracted data and the Python built-ins the renderers call\<close>

text \<open>
  The value handed to \<^verbatim>\<open>OutputService\<close> is whatever \<^verbatim>\<open>json.loads\<close> returned for the
  reply of the language model: \<^verbatim>\<open>None\<close>, a bool, an int, a float, a str, a list or a dict
  with str keys. A dict is an association list in insertion order (the order
  \<^verbatim>\<open>.items()\<close> and \<^verbatim>\<open>.keys()\<close> iterate in). A float carries the text Python prints
  for it: floating point arithmetic is not modelled and no renderer computes with it.

  Characters are HOL's 8-bit characters, read as the code points U+0000 to U+00FF.
\<close>

datatype json =
    JNull
  | JBool bool
  | JInt int
  | JFloat string
  | JStr string
  | JList "json list"
  | JDict "(string \<times> json) list"

subsection \<open>\<^verbatim>\<open>str\<close> and \<^verbatim>\<open>repr\<close>\<close>

definition digit_char :: "nat \<Rightarrow> char" where
  "digit_char d = ''0123456789'' ! d"

fun str_nat :: "nat \<Rightarrow> string" where
  "str_nat n = (if n < 10 then [digit_char n] else str_nat (n div 10) @ [digit_char (n mod 10)])"

declare str_nat.simps [simp del]

definition str_int :: "int \<Rightarrow> string" where
  "str_int i = (if i < 0 then CHR ''-'' # str_nat (nat (- i)) else str_nat (nat i))"

definition hex2 :: "nat \<Rightarrow> string" where
  "hex2 n = [''0123456789abcdef'' ! (n div 16), ''0123456789abcdef'' ! (n mod 16)]"

text \<open>\<^verbatim>\<open>str.isprintable\<close> on the code points below 256 (the C0 and C1 controls, DEL,
  the no-break space and the soft hyphen are not printable).\<close>

definition printable :: "char \<Rightarrow> bool" where
  "printable c = (let n = (of_char c :: nat) in (32 \<le> n \<and> n < 127) \<or> (161 \<le> n \<and> n \<noteq> 173))"

definition repr_char :: "char \<Rightarrow> char \<Rightarrow> string" where
  "repr_char q c =
     (if c = q \<or> c = CHR 0x5C then [CHR 0x5C, c]
      else if c = CHR 0x09 then [CHR 0x5C, CHR ''t'']
      else if c = CHR 0x0A then [CHR 0x5C, CHR ''n'']
      else if c = CHR 0x0D then [CHR 0x5C, CHR ''r'']
      else if printable c then [c]
      else [CHR 0x5C, CHR ''x''] @ hex2 (of_char c))"

text \<open>\<^verbatim>\<open>repr\<close> of a str: single quotes, unless the text has a single quote and no
  double quote.\<close>

definition repr_str :: "string \<Rightarrow> string" where
  "repr_str s =
     (let q = (if CHR 0x27 \<in> set s \<and> CHR 0x22 \<notin> set s then CHR 0x22 else CHR 0x27)
      in q # concat (map (repr_char q) s) @ [q])"

fun py_repr :: "json \<Rightarrow> string"
  and repr_items :: "json list \<Rightarrow> string"
  and repr_pairs :: "(string \<times> json) list \<Rightarrow> string" where
  "py_repr JNull = ''None''"
| "py_repr (JBool b) = (if b then ''True'' else ''False'')"
| "py_repr (JInt i) = str_int i"
| "py_repr (JFloat r) = r"
| "py_repr (JStr s) = repr_str s"
| "py_repr (JList xs) = ''['' @ repr_items xs @ '']''"
| "py_repr (JDict d) = ''{'' @ repr_pairs d @ ''}''"
| "repr_items [] = ''''"
| "repr_items [x] = py_repr x"
| "repr_items (x # y # ys) = py_repr x @ '', '' @ repr_items (y # ys)"
| "repr_pairs [] = ''''"
| "repr_pairs [(k, v)] = repr_str k @ '': '' @ py_repr v"
| "repr_pairs ((k, v) # kv # kvs) = repr_str k @ '': '' @ py_repr v @ '', '' @ repr_pairs (kv # kvs)"

text \<open>\<^verbatim>\<open>str(value)\<close>, which is also what an f-string field \<^verbatim>\<open>{value}\<close> inserts.\<close>

fun py_str :: "json \<Rightarrow> string" where
  "py_str (JStr s) = s"
| "py_str v = py_repr v"

subsection \<open>\<^verbatim>\<open>str.upper\<close>, \<^verbatim>\<open>str.lower\<close>, \<^verbatim>\<open>str.title\<close>\<close>

text \<open>
  The case mappings of Python on the code points U+0000 to U+00FF. The lower-case
  letters are \<^verbatim>\<open>a\<close> to \<^verbatim>\<open>z\<close> and U+00DF to U+00FF without the division sign U+00F7;
  the upper-case letters are \<^verbatim>\<open>A\<close> to \<^verbatim>\<open>Z\<close> and U+00C0 to U+00DE without the
  multiplication sign U+00D7; a letter and its other case are 32 apart. The sharp s,
  U+00DF, has no upper-case letter: \<^verbatim>\<open>upper\<close> writes \<^verbatim>\<open>SS\<close> for it and \<^verbatim>\<open>title\<close> writes
  \<^verbatim>\<open>Ss\<close>. The upper case of the micro sign U+00B5 is U+039C and that of U+00FF is
  U+0178, both beyond the 8-bit range: \<^verbatim>\<open>upper_char\<close> leaves these two characters as
  they are, and \<^verbatim>\<open>upper_in_range\<close> says that a text has neither of them. The ordinal
  indicators U+00AA and U+00BA and the micro sign are cased and have no other case.
\<close>

definition lower_char :: "char \<Rightarrow> char" where
  "lower_char c =
     (let n = (of_char c :: nat)
      in if (65 \<le> n \<and> n \<le> 90) \<or> (192 \<le> n \<and> n \<le> 214) \<or> (216 \<le> n \<and> n \<le> 222)
         then char_of (n + 32) else c)"

definition upper_char :: "char \<Rightarrow> char" where
  "upper_char c =
     (let n = (of_char c :: nat)
      in if (97 \<le> n \<and> n \<le> 122) \<or> (224 \<le> n \<and> n \<le> 246) \<or> (248 \<le> n \<and> n \<le> 254)
         then char_of (n - 32) else c)"

definition upper_in_range :: "string \<Rightarrow> bool" where
  "upper_in_range s = (CHR 0xB5 \<notin> set s \<and> CHR 0xFF \<notin> set s)"

definition cased :: "char \<Rightarrow> bool" where
  "cased c =
     (let n = (of_char c :: nat)
      in (65 \<le> n \<and> n \<le> 90) \<or> (97 \<le> n \<and> n \<le> 122) \<or> n = 170 \<or> n = 181 \<or> n = 186
         \<or> (192 \<le> n \<and> n \<le> 214) \<or> (216 \<le> n \<and> n \<le> 246) \<or> 248 \<le> n)"

definition py_upper :: "string \<Rightarrow> string" where
  "py_upper s = concat (map (\<lambda>c. if c = CHR 0xDF then ''SS'' else [upper_char c]) s)"

definition py_lower :: "string \<Rightarrow> string" where
  "py_lower s = map lower_char s"

text \<open>\<^verbatim>\<open>str.title\<close>: a character that follows a cased character is lower-cased, any
  other character is title-cased; the flag is \<^verbatim>\<open>previous_is_cased\<close>.\<close>

fun title_from :: "bool \<Rightarrow> string \<Rightarrow> string" where
  "title_from previous_is_cased [] = []"
| "title_from previous_is_cased (c # cs) =
     (if previous_is_cased then [lower_char c]
      else if c = CHR 0xDF then ''Ss''
      else [upper_char c])
     @ title_from (cased c) cs"

definition py_title :: "string \<Rightarrow> string" where
  "py_title s = title_from False s"

text \<open>\<^verbatim>\<open>sep.join(parts)\<close>.\<close>

fun join :: "string \<Rightarrow> string list \<Rightarrow> string" where
  "join sep [] = ''''"
| "join sep [x] = x"
| "join sep (x # y # ys) = x @ sep @ join sep (y # ys)"

text \<open>\<^verbatim>\<open>text * n\<close>.\<close>

definition times :: "string \<Rightarrow> nat \<Rightarrow> string" where
  "times s n = concat (replicate n s)"

text \<open>\<^verbatim>\<open>d.get(key, default)\<close> on a dict.\<close>

definition dict_get :: "(string \<times> json) list \<Rightarrow> string \<Rightarrow> json \<Rightarrow> json" where
  "dict_get d key dflt = (case map_of d key of Some v \<Rightarrow> v | None \<Rightarrow> dflt)"

text \<open>\<^verbatim>\<open>isinstance(item, dict)\<close>, \<^verbatim>\<open>list(item.keys())\<close> and the items of a value that
  passed that test.\<close>

fun is_dict :: "json \<Rightarrow> bool" where
  "is_dict (JDict d) = True"
| "is_dict v = False"

fun items :: "json \<Rightarrow> (string \<times> json) list" where
  "items (JDict d) = d"
| "items v = []"

definition keys :: "json \<Rightarrow> string list" where
  "keys v = map fst (items v)"

section \<open>The service's world: the output directory, the clock and the log\<close>

text \<open>Exceptions are values. Both classes derive from \<^verbatim>\<open>Exception\<close>; the text is what
  \<^verbatim>\<open>str(e)\<close> gives.\<close>

datatype py_exn = ValueError string | OSError string

fun str_exn :: "py_exn \<Rightarrow> string" where
  "str_exn (ValueError m) = m"
| "str_exn (OSError m) = m"

datatype level = INFO | WARNING | ERROR

text \<open>What \<^verbatim>\<open>python-docx\<close> and \<^verbatim>\<open>reportlab\<close> are given, in the order of the calls:
  the libraries record the document, and their own validation and page layout are outside
  the model. \<^verbatim>\<open>bullet\<close> stands for U+2022, the one character of the source beyond the
  8-bit range.\<close>

definition bullet :: string where
  "bullet = [CHR 0x95]"

datatype docx_block =
    Heading string nat "nat option"
  | DocParagraph string "string option"

datatype flowable =
    Paragraph string string
  | Spacer nat nat
  | Table "string list list"

datatype font = Font bool "string option" "nat option"

datatype fill = PatternFill string

record cell =
  cvalue :: "string option"
  cfont :: "font option"
  cfill :: "fill option"

record worksheet =
  title :: string
  cells :: "((nat \<times> nat) \<times> cell) list"
  column_widths :: "(nat \<times> nat) list"

datatype document =
    TextFile string
  | WordDocument "docx_block list"
  | PdfDocument "flowable list"
  | Workbook worksheet

datatype node = RegularFile document | Directory

text \<open>An entry of \<^verbatim>\<open>outputs/\<close>: what the name refers to, its modification time in
  seconds (a real number: the rounding of float subtraction is not modelled), and the
  exception that \<^verbatim>\<open>stat\<close> or \<^verbatim>\<open>unlink\<close> raises on it, when the operating system
  refuses.\<close>

record dir_entry =
  node :: node
  st_mtime :: real
  stat_error :: "py_exn option"
  unlink_error :: "py_exn option"

text \<open>The directory lists its entries in the order \<^verbatim>\<open>glob("*")\<close> yields them;
  \<^verbatim>\<open>scan_error\<close> is the exception that listing it raises, if any.\<close>

record world =
  output_dir :: "(string \<times> dir_entry) list"
  scan_error :: "py_exn option"
  logged :: "(level \<times> string) list"

definition logger :: "level \<Rightarrow> string \<Rightarrow> world \<Rightarrow> world" where
  "logger lv msg w = w\<lparr>logged := logged w @ [(lv, msg)]\<rparr>"

text \<open>The readings of the clock and of \<^verbatim>\<open>uuid4\<close> that one call of
  \<^verbatim>\<open>generate_output\<close> makes: \<^verbatim>\<open>timestamp\<close> is
  \<^verbatim>\<open>strftime("%Y%m%d_%H%M%S")\<close>, \<^verbatim>\<open>unique_id\<close> the first eight characters of the
  UUID, \<^verbatim>\<open>generated\<close> the later \<^verbatim>\<open>strftime('%Y-%m-%d %H:%M:%S')\<close>, and
  \<^verbatim>\<open>written_at\<close> the modification time the new file gets.\<close>

record env =
  timestamp :: string
  unique_id :: string
  generated :: string
  written_at :: real

definition save :: "world \<Rightarrow> string \<Rightarrow> document \<Rightarrow> real \<Rightarrow> world" where
  "save w filename doc t =
     w\<lparr>output_dir := AList.update filename
          \<lparr>node = RegularFile doc, st_mtime = t, stat_error = None, unlink_error = None\<rparr>
          (output_dir w)\<rparr>"

definition file_name :: "env \<Rightarrow> string \<Rightarrow> string" where
  "file_name e ext = ''scrape_result_'' @ timestamp e @ ''_'' @ unique_id e @ ext"

definition file_path :: "string \<Rightarrow> string" where
  "file_path filename = ''outputs/'' @ filename"

section \<open>Text renderer\<close>

text \<open>\<^verbatim>\<open>_format_dict_for_text\<close>: the loop over \<^verbatim>\<open>data.items()\<close>, and its inner loop over
  \<^verbatim>\<open>enumerate(value, 1)\<close>.\<close>

fun format_dict_for_text :: "(string \<times> json) list \<Rightarrow> nat \<Rightarrow> string list"
  and format_items_for_text :: "json list \<Rightarrow> nat \<Rightarrow> nat \<Rightarrow> string list" where
  "format_dict_for_text [] indent = []"
| "format_dict_for_text ((key, value) # rest) indent =
     (case value of
        JDict d \<Rightarrow>
          [times ''  '' indent @ py_upper key @ '':'']
          @ format_dict_for_text d (indent + 1) @ ['''']
      | JList xs \<Rightarrow>
          [times ''  '' indent @ py_upper key @ '':'']
          @ format_items_for_text xs 1 indent @ ['''']
      | _ \<Rightarrow> [times ''  '' indent @ key @ '': '' @ py_str value])
     @ format_dict_for_text rest indent"
| "format_items_for_text [] i indent = []"
| "format_items_for_text (item # rest) i indent =
     (case item of
        JDict d \<Rightarrow>
          [times ''  '' indent @ ''  '' @ str_nat i @ ''.'']
          @ format_dict_for_text d (indent + 2)
      | _ \<Rightarrow> [times ''  '' indent @ ''  '' @ str_nat i @ ''. '' @ py_str item])
     @ format_items_for_text rest (i + 1) indent"

definition text_content :: "env \<Rightarrow> json \<Rightarrow> string \<Rightarrow> string list" where
  "text_content e data prompt =
     [times ''='' 50, ''WEB SCRAPING RESULTS'', times ''='' 50, '''',
      ''Generated: '' @ generated e, ''Prompt: '' @ prompt, '''',
      ''EXTRACTED DATA:'', times ''-'' 20, '''']
     @ (case data of JDict d \<Rightarrow> format_dict_for_text d 0 | _ \<Rightarrow> [py_str data])"

definition generate_text ::
  "world \<Rightarrow> env \<Rightarrow> json \<Rightarrow> string \<Rightarrow> (py_exn + string \<times> string) \<times> world" where
  "generate_text w e data prompt =
     (let filename = file_name e ''.txt'';
          w1 = save w filename (TextFile (join [CHR 0x0A] (text_content e data prompt))) (written_at e);
          w2 = logger INFO (''Generated text file: '' @ filename) w1
      in (Inr (filename, file_path filename), w2))"

section \<open>Word renderer\<close>

fun add_dict_to_word :: "(string \<times> json) list \<Rightarrow> nat \<Rightarrow> docx_block list"
  and add_items_to_word :: "json list \<Rightarrow> nat \<Rightarrow> docx_block list" where
  "add_dict_to_word [] lvl = []"
| "add_dict_to_word ((key, value) # rest) lvl =
     (case value of
        JDict d \<Rightarrow>
          (if lvl = 0 then [Heading (py_title key) 2 None]
           else [DocParagraph (times ''  '' lvl @ bullet @ '' '' @ key @ '':'') (Some ''List Bullet'')])
          @ add_dict_to_word d (lvl + 1)
      | JList xs \<Rightarrow>
          [DocParagraph (times ''  '' lvl @ bullet @ '' '' @ key @ '':'') (Some ''List Bullet'')]
          @ add_items_to_word xs lvl
      | _ \<Rightarrow> [DocParagraph (times ''  '' lvl @ bullet @ '' '' @ key @ '': '' @ py_str value) None])
     @ add_dict_to_word rest lvl"
| "add_items_to_word [] lvl = []"
| "add_items_to_word (item # rest) lvl =
     (case item of
        JDict d \<Rightarrow> add_dict_to_word d (lvl + 1)
      | _ \<Rightarrow> [DocParagraph (times ''  '' (lvl + 1) @ ''- '' @ py_str item) None])
     @ add_items_to_word rest lvl"

definition word_blocks :: "env \<Rightarrow> json \<Rightarrow> string \<Rightarrow> docx_block list" where
  "word_blocks e data prompt =
     [Heading ''Web Scraping Results'' 0 (Some 1),
      Heading ''Scraping Details'' 1 None,
      DocParagraph (''Generated: '' @ generated e) None,
      DocParagraph (''Prompt: '' @ prompt) None,
      Heading ''Extracted Data'' 1 None]
     @ (case data of JDict d \<Rightarrow> add_dict_to_word d 0 | _ \<Rightarrow> [DocParagraph (py_str data) None])"

definition generate_word ::
  "world \<Rightarrow> env \<Rightarrow> json \<Rightarrow> string \<Rightarrow> (py_exn + string \<times> string) \<times> world" where
  "generate_word w e data prompt =
     (let filename = file_name e ''.docx'';
          w1 = save w filename (WordDocument (word_blocks e data prompt)) (written_at e);
          w2 = logger INFO (''Generated Word document: '' @ filename) w1
      in (Inr (filename, file_path filename), w2))"

section \<open>PDF renderer\<close>

text \<open>\<^verbatim>\<open>_is_tabular_data\<close>: the loop over \<^verbatim>\<open>data.values()\<close>.\<close>

fun tabular_values :: "json list \<Rightarrow> bool" where
  "tabular_values [] = False"
| "tabular_values (value # rest) =
     (case value of
        JList xs \<Rightarrow>
          (if length xs > 0 then (if list_all is_dict xs then True else tabular_values rest)
           else tabular_values rest)
      | _ \<Rightarrow> tabular_values rest)"

fun is_tabular_data :: "json \<Rightarrow> bool" where
  "is_tabular_data (JDict d) = tabular_values (map snd d)"
| "is_tabular_data v = False"

text \<open>The rows one list of dicts gives: \<^verbatim>\<open>headers = list(value[0].keys())\<close>, then for
  each item \<^verbatim>\<open>[str(item.get(header, '')) for header in headers]\<close>.\<close>

definition table_row :: "string list \<Rightarrow> json \<Rightarrow> string list" where
  "table_row headers item = map (\<lambda>header. py_str (dict_get (items item) header (JStr ''''))) headers"

text \<open>\<^verbatim>\<open>_dict_to_table_data\<close>: the loop over \<^verbatim>\<open>data.items()\<close>, left by \<^verbatim>\<open>break\<close> at the
  first non-empty list of dicts.\<close>

fun dict_to_table_data :: "(string \<times> json) list \<Rightarrow> string list list" where
  "dict_to_table_data [] = []"
| "dict_to_table_data ((key, value) # rest) =
     (case value of
        JList [] \<Rightarrow> dict_to_table_data rest
      | JList (first # others) \<Rightarrow>
          (if list_all is_dict (first # others)
           then (let headers = keys first in headers # map (table_row headers) (first # others))
           else dict_to_table_data rest)
      | _ \<Rightarrow> dict_to_table_data rest)"

text \<open>\<^verbatim>\<open>_format_data_for_pdf\<close>.\<close>

fun format_data_for_pdf :: "json \<Rightarrow> nat \<Rightarrow> string"
  and format_dict_for_pdf :: "(string \<times> json) list \<Rightarrow> nat \<Rightarrow> string"
  and format_list_for_pdf :: "json list \<Rightarrow> nat \<Rightarrow> string" where
  "format_data_for_pdf (JDict d) indent = format_dict_for_pdf d indent"
| "format_data_for_pdf (JList xs) indent = format_list_for_pdf xs indent"
| "format_data_for_pdf JNull indent = py_str JNull"
| "format_data_for_pdf (JBool b) indent = py_str (JBool b)"
| "format_data_for_pdf (JInt i) indent = py_str (JInt i)"
| "format_data_for_pdf (JFloat r) indent = py_str (JFloat r)"
| "format_data_for_pdf (JStr s) indent = py_str (JStr s)"
| "format_dict_for_pdf [] indent = ''''"
| "format_dict_for_pdf ((key, value) # rest) indent =
     (case value of
        JDict d \<Rightarrow>
          times ''&nbsp;'' (indent * 4) @ ''<b>'' @ key @ '':</b><br/>''
          @ format_dict_for_pdf d (indent + 1)
      | JList xs \<Rightarrow>
          times ''&nbsp;'' (indent * 4) @ ''<b>'' @ key @ '':</b><br/>''
          @ format_list_for_pdf xs (indent + 1)
      | _ \<Rightarrow> times ''&nbsp;'' (indent * 4) @ ''<b>'' @ key @ '':</b> '' @ py_str value @ ''<br/>'')
     @ format_dict_for_pdf rest indent"
| "format_list_for_pdf [] indent = ''''"
| "format_list_for_pdf (item # rest) indent =
     times ''&nbsp;'' (indent * 4) @ bullet @ '' '' @ format_data_for_pdf item (indent + 1) @ ''<br/>''
     @ format_list_for_pdf rest indent"

definition pdf_story :: "env \<Rightarrow> json \<Rightarrow> string \<Rightarrow> flowable list" where
  "pdf_story e data prompt =
     [Paragraph ''Web Scraping Results'' ''CustomTitle'',
      Spacer 1 20,
      Paragraph ''Scraping Details'' ''Heading2'',
      Paragraph (''<b>Generated:</b> '' @ generated e) ''Normal'',
      Paragraph (''<b>Prompt:</b> '' @ prompt) ''Normal'',
      Spacer 1 20,
      Paragraph ''Extracted Data'' ''Heading2'']
     @ (if is_dict data \<and> is_tabular_data data
        then (let table_data = dict_to_table_data (items data)
              in if table_data \<noteq> [] then [Table table_data] else [])
        else [Paragraph (format_data_for_pdf data 0) ''Normal''])"

definition generate_pdf ::
  "world \<Rightarrow> env \<Rightarrow> json \<Rightarrow> string \<Rightarrow> (py_exn + string \<times> string) \<times> world" where
  "generate_pdf w e data prompt =
     (let filename = file_name e ''.pdf'';
          w1 = save w filename (PdfDocument (pdf_story e data prompt)) (written_at e);
          w2 = logger INFO (''Generated PDF document: '' @ filename) w1
      in (Inr (filename, file_path filename), w2))"

section \<open>Excel renderer\<close>

text \<open>The worksheet keeps its cells in a dict keyed by (row, column), both counted from 1.
  A cell that was never written has the value \<^verbatim>\<open>None\<close>. What \<^verbatim>\<open>openpyxl\<close> itself does
  to a cell's text (it refuses control characters and cuts a text at 32767 characters) is
  outside the model.\<close>

definition empty_cell :: cell where
  "empty_cell = \<lparr>cvalue = None, cfont = None, cfill = None\<rparr>"

definition get_cell :: "worksheet \<Rightarrow> nat \<times> nat \<Rightarrow> cell" where
  "get_cell ws rc = (case map_of (cells ws) rc of Some c \<Rightarrow> c | None \<Rightarrow> empty_cell)"

definition value_at :: "worksheet \<Rightarrow> nat \<times> nat \<Rightarrow> string option" where
  "value_at ws rc = cvalue (get_cell ws rc)"

definition set_value :: "worksheet \<Rightarrow> nat \<times> nat \<Rightarrow> string \<Rightarrow> worksheet" where
  "set_value ws rc v = ws\<lparr>cells := AList.update rc ((get_cell ws rc)\<lparr>cvalue := Some v\<rparr>) (cells ws)\<rparr>"

definition set_font :: "worksheet \<Rightarrow> nat \<times> nat \<Rightarrow> font \<Rightarrow> worksheet" where
  "set_font ws rc f = ws\<lparr>cells := AList.update rc ((get_cell ws rc)\<lparr>cfont := Some f\<rparr>) (cells ws)\<rparr>"

definition set_fill :: "worksheet \<Rightarrow> nat \<times> nat \<Rightarrow> fill \<Rightarrow> worksheet" where
  "set_fill ws rc f = ws\<lparr>cells := AList.update rc ((get_cell ws rc)\<lparr>cfill := Some f\<rparr>) (cells ws)\<rparr>"

definition header_font :: font where
  "header_font = Font True (Some ''FFFFFF'') None"

definition header_fill :: fill where
  "header_fill = PatternFill ''366092''"

text \<open>The three statements that write a styled section header into column A.\<close>

definition section_header :: "worksheet \<Rightarrow> nat \<Rightarrow> string \<Rightarrow> worksheet" where
  "section_header ws row text =
     set_fill (set_font (set_value ws (row, 1) text) (row, 1) header_font) (row, 1) header_fill"

text \<open>\<^verbatim>\<open>for col, header in enumerate(headers, 1)\<close>: the header row, and one data row.\<close>

definition add_headers :: "worksheet \<Rightarrow> nat \<Rightarrow> string list \<Rightarrow> worksheet" where
  "add_headers ws row headers =
     fold (\<lambda>(col, header) w.
             set_fill (set_font (set_value w (row, col) header) (row, col) (Font True None None))
               (row, col) (PatternFill ''D9D9D9''))
          (List.enumerate 1 headers) ws"

definition add_data_row :: "worksheet \<Rightarrow> nat \<Rightarrow> string list \<Rightarrow> json \<Rightarrow> worksheet" where
  "add_data_row ws row headers item =
     fold (\<lambda>(col, header) w.
             set_value w (row, col) (py_str (dict_get (items item) header (JStr ''''))))
          (List.enumerate 1 headers) ws"

fun add_data_rows :: "worksheet \<Rightarrow> nat \<Rightarrow> string list \<Rightarrow> json list \<Rightarrow> worksheet \<times> nat" where
  "add_data_rows ws row headers [] = (ws, row)"
| "add_data_rows ws row headers (item # rest) =
     add_data_rows (add_data_row ws row headers item) (row + 1) headers rest"

fun add_simple_rows :: "worksheet \<Rightarrow> nat \<Rightarrow> json list \<Rightarrow> worksheet \<times> nat" where
  "add_simple_rows ws row [] = (ws, row)"
| "add_simple_rows ws row (item # rest) =
     add_simple_rows (set_value ws (row, 1) (py_str item)) (row + 1) rest"

text \<open>\<^verbatim>\<open>_add_dict_to_excel\<close>. \<^verbatim>\<open>excel_entry\<close> is the body of its loop for one
  \<^verbatim>\<open>key, value\<close> of \<^verbatim>\<open>data.items()\<close>: it returns the worksheet and \<^verbatim>\<open>current_row\<close> as
  the body leaves them. \<^verbatim>\<open>add_dict_to_excel\<close> is the loop, threading both.\<close>

definition excel_entry :: "worksheet \<Rightarrow> string \<Rightarrow> json \<Rightarrow> nat \<Rightarrow> worksheet \<times> nat" where
  "excel_entry ws key value current_row =
     (case value of
        JList (first # others) \<Rightarrow>
          (if list_all is_dict (first # others) then
             (let ws1 = section_header ws current_row (py_title key);
                  headers = keys first;
                  ws2 = add_headers ws1 (current_row + 1) headers;
                  (ws3, row3) = add_data_rows ws2 (current_row + 2) headers (first # others)
              in (ws3, row3 + 1))
           else
             (let ws1 = section_header ws current_row (py_title key);
                  (ws2, row2) = add_simple_rows ws1 (current_row + 1) (first # others)
              in (ws2, row2 + 1)))
      | _ \<Rightarrow>
          (set_value (set_value ws (current_row, 1) (py_title key)) (current_row, 2) (py_str value),
           current_row + 1))"

fun add_dict_to_excel :: "worksheet \<Rightarrow> (string \<times> json) list \<Rightarrow> nat \<Rightarrow> worksheet \<times> nat" where
  "add_dict_to_excel ws [] current_row = (ws, current_row)"
| "add_dict_to_excel ws ((key, value) # rest) current_row =
     (let (ws', row') = excel_entry ws key value current_row
      in add_dict_to_excel ws' rest row')"

text \<open>\<^verbatim>\<open>ws.columns\<close> runs over the columns 1 to \<^verbatim>\<open>max_column\<close>, each holding the cells
  of the rows 1 to \<^verbatim>\<open>max_row\<close>, written or not.\<close>

definition max_row :: "worksheet \<Rightarrow> nat" where
  "max_row ws = fold max (map (\<lambda>((r, c), x). r) (cells ws)) 1"

definition max_column :: "worksheet \<Rightarrow> nat" where
  "max_column ws = fold max (map (\<lambda>((r, c), x). c) (cells ws)) 1"

text \<open>\<^verbatim>\<open>str(cell.value)\<close>.\<close>

definition cell_text :: "worksheet \<Rightarrow> nat \<Rightarrow> nat \<Rightarrow> string" where
  "cell_text ws r c = (case value_at ws (r, c) of None \<Rightarrow> ''None'' | Some s \<Rightarrow> s)"

text \<open>The inner loop of the width adjustment, \<^verbatim>\<open>max_length\<close> starting at 0.\<close>

definition column_max_length :: "worksheet \<Rightarrow> nat \<Rightarrow> nat" where
  "column_max_length ws c =
     fold (\<lambda>r max_length.
             if length (cell_text ws r c) > max_length then length (cell_text ws r c)
             else max_length)
          [1 ..< max_row ws + 1] 0"

definition set_width :: "worksheet \<Rightarrow> nat \<Rightarrow> nat \<Rightarrow> worksheet" where
  "set_width ws c width = ws\<lparr>column_widths := AList.update c width (column_widths ws)\<rparr>"

definition adjust_column_widths :: "worksheet \<Rightarrow> worksheet" where
  "adjust_column_widths ws =
     fold (\<lambda>c w. set_width w c (min (column_max_length w c + 2) 50))
          [1 ..< max_column ws + 1] ws"

definition new_worksheet :: worksheet where
  "new_worksheet = \<lparr>title = ''Sheet'', cells = [], column_widths = []\<rparr>"

text \<open>\<^verbatim>\<open>_generate_excel\<close>: the title and metadata cells, then the data from row 6 on,
  then the column widths.\<close>

definition excel_base :: "env \<Rightarrow> string \<Rightarrow> worksheet" where
  "excel_base e prompt =
     (let ws0 = new_worksheet\<lparr>title := ''Scraping Results''\<rparr>;
          ws1 = set_value ws0 (1, 1) ''Web Scraping Results'';
          ws2 = set_font ws1 (1, 1) (Font True None (Some 16));
          ws3 = set_value ws2 (3, 1) ''Generated:'';
          ws4 = set_value ws3 (3, 2) (generated e);
          ws5 = set_value ws4 (4, 1) ''Prompt:''
      in set_value ws5 (4, 2) prompt)"

definition excel_data_sheet :: "env \<Rightarrow> json \<Rightarrow> string \<Rightarrow> worksheet" where
  "excel_data_sheet e data prompt =
     (let ws = excel_base e prompt;
          current_row = 6
      in (case data of
            JDict d \<Rightarrow> fst (add_dict_to_excel ws d current_row)
          | _ \<Rightarrow> set_value (section_header ws current_row ''Extracted Data'')
                   (current_row + 1, 1) (py_str data)))"

definition excel_sheet :: "env \<Rightarrow> json \<Rightarrow> string \<Rightarrow> worksheet" where
  "excel_sheet e data prompt = adjust_column_widths (excel_data_sheet e data prompt)"

definition generate_excel ::
  "world \<Rightarrow> env \<Rightarrow> json \<Rightarrow> string \<Rightarrow> (py_exn + string \<times> string) \<times> world" where
  "generate_excel w e data prompt =
     (let filename = file_name e ''.xlsx'';
          w1 = save w filename (Workbook (excel_sheet e data prompt)) (written_at e);
          w2 = logger INFO (''Generated Excel file: '' @ filename) w1
      in (Inr (filename, file_path filename), w2))"

section \<open>The dispatcher\<close>

text \<open>\<^verbatim>\<open>generate_output\<close>: the \<^verbatim>\<open>if\<close>/\<^verbatim>\<open>elif\<close> chain on \<^verbatim>\<open>format_type\<close>, whose last
  branch raises, inside the \<^verbatim>\<open>try\<close> whose handler logs the exception and raises it
  again.\<close>

definition generate_output ::
  "world \<Rightarrow> env \<Rightarrow> json \<Rightarrow> string \<Rightarrow> string \<Rightarrow> (py_exn + string \<times> string) \<times> world" where
  "generate_output w e data format_type prompt =
     (case (if format_type = ''word'' then generate_word w e data prompt
            else if format_type = ''pdf'' then generate_pdf w e data prompt
            else if format_type = ''excel'' then generate_excel w e data prompt
            else if format_type = ''text'' then generate_text w e data prompt
            else (Inl (ValueError (''Unsupported format: '' @ format_type)), w))
      of (Inl ex, w') \<Rightarrow>
           (Inl ex, logger ERROR (''Error generating '' @ format_type @ '' output: '' @ str_exn ex) w')
       | (Inr result, w') \<Rightarrow> (Inr result, w'))"

section \<open>The cleanup sweep\<close>

definition is_file :: "dir_entry \<Rightarrow> bool" where
  "is_file e = (case node e of RegularFile doc \<Rightarrow> True | Directory \<Rightarrow> False)"

definition unlink :: "world \<Rightarrow> string \<Rightarrow> world" where
  "unlink w name = w\<lparr>output_dir := AList.delete name (output_dir w)\<rparr>"

text \<open>The body of the \<^verbatim>\<open>try\<close> in \<^verbatim>\<open>cleanup_old_files\<close>: the loop over the entries that
  \<^verbatim>\<open>glob("*")\<close> listed. An exception leaves the loop at once, with the directory as it is
  at that moment.\<close>

fun sweep :: "real \<Rightarrow> int \<Rightarrow> (string \<times> dir_entry) list \<Rightarrow> world \<Rightarrow> (py_exn + unit) \<times> world" where
  "sweep current_time days [] w = (Inr (), w)"
| "sweep current_time days ((name, e) # rest) w =
     (if is_file e then
        (case stat_error e of
           Some ex \<Rightarrow> (Inl ex, w)
         | None \<Rightarrow>
             (let file_age = current_time - st_mtime e
              in if file_age > of_int (days * 24 * 3600) then
                   (case unlink_error e of
                      Some ex \<Rightarrow> (Inl ex, w)
                    | None \<Rightarrow>
                        sweep current_time days rest
                          (logger INFO (''Cleaned up old file: '' @ name) (unlink w name)))
                 else sweep current_time days rest w))
      else sweep current_time days rest w)"

text \<open>\<^verbatim>\<open>cleanup_old_files\<close>: the handler \<^verbatim>\<open>except Exception\<close> logs what the body raised
  and the method returns. The first component is how the call ends: \<^verbatim>\<open>Inl\<close> an exception
  that reaches the caller, \<^verbatim>\<open>Inr\<close> a normal return.\<close>

definition cleanup_old_files :: "world \<Rightarrow> real \<Rightarrow> int \<Rightarrow> (py_exn + unit) \<times> world" where
  "cleanup_old_files w current_time days =
     (case (case scan_error w of
              Some ex \<Rightarrow> (Inl ex, w)
            | None \<Rightarrow> sweep current_time days (output_dir w) w)
      of (Inl ex, w') \<Rightarrow> (Inr (), logger ERROR (''Error cleaning up files: '' @ str_exn ex) w')
       | (Inr u, w') \<Rightarrow> (Inr (), w'))"


section \<open>The download endpoint\<close>

text \<open>\<^verbatim>\<open>str.rfind\<close> of one character, and \<^verbatim>\<open>PurePath.suffix\<close> of a path whose last
  component is \<^verbatim>\<open>name\<close>: the text from the last dot on, unless that dot is the first or the
  last character. The route \<^verbatim>\<open>/download/{filename}\<close> matches one path segment, so
  \<^verbatim>\<open>filename\<close> is that component.\<close>

fun rfind :: "char \<Rightarrow> string \<Rightarrow> nat option" where
  "rfind c [] = None"
| "rfind c (x # xs) =
     (case rfind c xs of
        Some i \<Rightarrow> Some (Suc i)
      | None \<Rightarrow> if x = c then Some 0 else None)"

definition path_suffix :: "string \<Rightarrow> string" where
  "path_suffix name =
     (case rfind CHR ''.'' name of
        None \<Rightarrow> ''''
      | Some i \<Rightarrow> if 0 < i \<and> i + 1 < length name then drop i name else '''')"

definition media_type_map :: "(string \<times> string) list" where
  "media_type_map =
     [(''.docx'', ''application/vnd.openxmlformats-officedocument.wordprocessingml.document''),
      (''.pdf'', ''application/pdf''),
      (''.xlsx'', ''application/vnd.openxmlformats-officedocument.spreadsheetml.sheet''),
      (''.txt'', ''text/plain'')]"

datatype http_error = HTTPException nat string

record file_response =
  path :: string
  filename :: string
  media_type :: string

definition download_file :: "world \<Rightarrow> string \<Rightarrow> (http_error + file_response) \<times> world" where
  "download_file w name =
     (if map_of (output_dir w) name = None
      then (Inl (HTTPException 404 ''File not found''),
            logger WARNING (''Requested file not found: '' @ name) w)
      else
        (let file_extension = py_lower (path_suffix name);
             mt = (case map_of media_type_map file_extension of
                     Some m \<Rightarrow> m
                   | None \<Rightarrow> ''application/octet-stream'')
         in (Inr \<lparr>path = file_path name, filename = name, media_type = mt\<rparr>,
             logger INFO (''Serving file for download: '' @ name) w)))"

section \<open>Notions of the specification, and example inputs\<close>




text \<open>The length of the longest stringified cell value of a column.\<close>

definition longest_in_column :: "worksheet \<Rightarrow> nat \<Rightarrow> nat" where
  "longest_in_column ws c = Max (set (map (\<lambda>r. length (cell_text ws r c)) [1 ..< max_row ws + 1]))"


definition demo_env :: env where
  "demo_env = \<lparr>timestamp = ''20240101_120000'', unique_id = ''abcd1234'',
                generated = ''2024-01-01 12:00:00'', written_at = 1000\<rparr>"

definition plain_entry :: "document \<Rightarrow> real \<Rightarrow> dir_entry" where
  "plain_entry doc t =
     \<lparr>node = RegularFile doc, st_mtime = t, stat_error = None, unlink_error = None\<rparr>"

definition demo_world :: world where
  "demo_world = \<lparr>output_dir = [(''report.PDF'', plain_entry (PdfDocument []) 0)],
                  scan_error = None, logged = []\<rparr>"

text \<open>Two files written at time 0, the first of which the operating system refuses to
  delete.\<close>

definition locked_world :: world where
  "locked_world =
     \<lparr>output_dir =
        [(''a.txt'', (plain_entry (TextFile ''a'') 0)
                       \<lparr>unlink_error := Some (OSError ''[Errno 13] Permission denied'')\<rparr>),
         (''b.txt'', plain_entry (TextFile ''b'') 0)],
      scan_error = None, logged = []\<rparr>"


definition page_data :: json where
  "page_data = JDict [(''title'', JStr ''Test Page''), (''content'', JStr ''Test content'')]"

definition item_rows :: "json list" where
  "item_rows =
     [JDict [(''name'', JStr ''A''), (''price'', JInt 1)],
      JDict [(''name'', JStr ''B''), (''price'', JInt 2)]]"

definition items_data :: json where
  "items_data = JDict [(''items'', JList item_rows)]"






definition narrow_data :: json where
  "narrow_data = JDict [(''t'', JList [JDict [(''a'', JInt 1), (''b'', JInt 2), (''c'', JInt 3)]])]"

section \<open>Facts about the worksheet operations\<close>















section \<open>The case mappings on the texts of the examples\<close>

lemma py_lower_PDF: "py_lower ''.PDF'' = ''.pdf''"
  by code_simp




section \<open>The dispatcher rejects an unknown format\<close>

text \<open>
  Claim C4. For every format value outside text, word, pdf and excel,
  \<^verbatim>\<open>generate_output\<close> raises \<^verbatim>\<open>ValueError("Unsupported format: ...")\<close> and writes no
  file: the output directory after the call is the one before it. The only trace of the
  call is the error line of the handler in the log.
\<close>

theorem unsupported_format_raises_and_writes_nothing:
  assumes "format_type \<notin> {''text'', ''word'', ''pdf'', ''excel''}"
  shows "fst (generate_output w e data format_type prompt)
           = Inl (ValueError (''Unsupported format: '' @ format_type))
         \<and> output_dir (snd (generate_output w e data format_type prompt)) = output_dir w
         \<and> snd (generate_output w e data format_type prompt)
             = logger ERROR (''Error generating '' @ format_type
                             @ '' output: Unsupported format: '' @ format_type) w"
  using assms by (simp add: generate_output_def logger_def)

theorem unsupported_format_witness:
  "''csv'' \<notin> {''text'', ''word'', ''pdf'', ''excel''}
   \<and> fst (generate_output demo_world demo_env page_data ''csv'' ''p'')
       = Inl (ValueError ''Unsupported format: csv'')
   \<and> output_dir (snd (generate_output demo_world demo_env page_data ''csv'' ''p''))
       = output_dir demo_world"
proof -
  have outside: "''csv'' \<notin> {''text'', ''word'', ''pdf'', ''excel''}" by simp
  show ?thesis
    using outside
      unsupported_format_raises_and_writes_nothing [OF outside, of demo_world demo_env page_data "''p''"]
    by (simp add: logger_def)
qed

section \<open>The cleanup sweep returns normally\<close>

text \<open>
  Claim C7. \<^verbatim>\<open>cleanup_old_files\<close> never passes an exception on to its caller: in every
  state of the output directory, whatever listing it, \<^verbatim>\<open>stat\<close> or \<^verbatim>\<open>unlink\<close> raise, the
  call returns normally. In the example the first file cannot be deleted: the call
  returns, the error is in the log, and both files are still there.
\<close>

theorem cleanup_never_raises:
  "fst (cleanup_old_files w current_time days) = Inr ()"
  by (simp add: cleanup_old_files_def split: option.split prod.split sum.split)

theorem cleanup_never_raises_witness:
  "fst (cleanup_old_files locked_world 700000 7) = Inr ()
   \<and> logged (snd (cleanup_old_files locked_world 700000 7))
       = [(ERROR, ''Error cleaning up files: [Errno 13] Permission denied'')]
   \<and> map fst (output_dir (snd (cleanup_old_files locked_world 700000 7))) = [''a.txt'', ''b.txt'']"
  using cleanup_never_raises [of locked_world 700000 7]
  by (simp add: cleanup_old_files_def locked_world_def plain_entry_def is_file_def logger_def)

section \<open>The media type of a download\<close>

text \<open>
  Claim C8, as stated, fails. It says that every extension other than \<^verbatim>\<open>.docx\<close>,
  \<^verbatim>\<open>.pdf\<close>, \<^verbatim>\<open>.xlsx\<close> and \<^verbatim>\<open>.txt\<close> is served as \<^verbatim>\<open>application/octet-stream\<close>. The
  endpoint lower-cases the suffix before it looks it up, so the file \<^verbatim>\<open>report.PDF\<close>, whose
  extension \<^verbatim>\<open>.PDF\<close> is none of the four, is served as \<^verbatim>\<open>application/pdf\<close>.
\<close>

theorem mime_other_extension_counterexample:
  "path_suffix ''report.PDF'' = ''.PDF''
   \<and> ''.PDF'' \<notin> {''.docx'', ''.pdf'', ''.xlsx'', ''.txt''}
   \<and> fst (download_file demo_world ''report.PDF'')
       = Inr \<lparr>path = ''outputs/report.PDF'', filename = ''report.PDF'',
              media_type = ''application/pdf''\<rparr>
   \<and> ''application/pdf'' \<noteq> ''application/octet-stream''"
  by (simp add: download_file_def demo_world_def path_suffix_def py_lower_PDF
      media_type_map_def file_path_def)

text \<open>
  Claim C8, amended. For a file that exists in the output directory, the download
  endpoint answers with a media type that depends on the filename's extension alone,
  compared without regard to case: the lower-cased extension \<^verbatim>\<open>.docx\<close>, \<^verbatim>\<open>.pdf\<close>,
  \<^verbatim>\<open>.xlsx\<close> or \<^verbatim>\<open>.txt\<close> gives the media type of the table, and every other extension
  gives \<^verbatim>\<open>application/octet-stream\<close>.
\<close>

theorem download_media_type:
  assumes "map_of (output_dir w) name = Some entry"
  shows "\<exists>response. fst (download_file w name) = Inr response
         \<and> path response = file_path name \<and> filename response = name
         \<and> media_type response =
             (if py_lower (path_suffix name) = ''.docx''
                then ''application/vnd.openxmlformats-officedocument.wordprocessingml.document''
              else if py_lower (path_suffix name) = ''.pdf'' then ''application/pdf''
              else if py_lower (path_suffix name) = ''.xlsx''
                then ''application/vnd.openxmlformats-officedocument.spreadsheetml.sheet''
              else if py_lower (path_suffix name) = ''.txt'' then ''text/plain''
              else ''application/octet-stream'')"
  using assms by (simp add: download_file_def media_type_map_def)

theorem download_media_type_witness:
  "map_of (output_dir demo_world) ''report.PDF'' = Some (plain_entry (PdfDocument []) 0)
   \<and> (\<exists>response. fst (download_file demo_world ''report.PDF'') = Inr response
        \<and> media_type response = ''application/pdf'')"
proof -
  have there: "map_of (output_dir demo_world) ''report.PDF'' = Some (plain_entry (PdfDocument []) 0)"
    by (simp add: demo_world_def)
  have lower: "py_lower (path_suffix ''report.PDF'') = ''.pdf''"
    by (simp add: path_suffix_def py_lower_PDF)
  show ?thesis
    using there download_media_type [OF there] lower by auto
qed

section \<open>Key labels of the text renderer\<close>






section \<open>Tables in the PDF and Excel renderers\<close>

subsection \<open>The PDF grid\<close>










subsection \<open>The Excel rows\<close>

lemma cells_set_width: "cells (set_width ws c n) = cells ws"
  by (simp add: set_width_def)

lemma cells_fold_set_width:
  "cells (fold (\<lambda>c w. set_width w c (f w c)) cs ws) = cells ws"
  by (induction cs arbitrary: ws) (simp_all add: cells_set_width)

lemma cells_adjust_column_widths: "cells (adjust_column_widths ws) = cells ws"
  unfolding adjust_column_widths_def by (rule cells_fold_set_width)
















subsection \<open>Header row and data rows\<close>



subsection \<open>A missing key\<close>





subsection \<open>Only the first candidate reaches the PDF\<close>



subsection \<open>A nested mapping in the spreadsheet\<close>



section \<open>Column widths of the spreadsheet\<close>

lemma fold_if_greater_max:
  "fold (\<lambda>r m. if f r > m then f r else m) rs (m0 :: nat) = fold max (map f rs) m0"
  by (induction rs arbitrary: m0) (simp_all add: max_def not_less)

lemma fold_max_Max:
  assumes "ys \<noteq> []"
  shows "fold max ys (0 :: nat) = Max (set ys)"
proof -
  have "fold max ys 0 = Max (set (0 # ys))"
    by (rule Max.set_eq_fold [symmetric])
  also have "\<dots> = max 0 (Max (set ys))"
    using assms by simp
  finally show ?thesis by simp
qed

lemma max_row_positive: "1 \<le> max_row ws"
proof -
  have "m \<le> fold max xs m" for xs and m :: nat
    by (induction xs arbitrary: m) (auto intro: order_trans [OF max.cobounded2])
  then show ?thesis by (simp add: max_row_def)
qed

lemma column_max_length_longest:
  "column_max_length ws c = longest_in_column ws c"
proof -
  have ne: "map (\<lambda>r. length (cell_text ws r c)) [1 ..< max_row ws + 1] \<noteq> []"
    using max_row_positive [of ws] by simp
  show ?thesis
    unfolding column_max_length_def longest_in_column_def fold_if_greater_max
    by (rule fold_max_Max [OF ne])
qed

lemma cells_determine:
  assumes "cells w = cells ws"
  shows "column_max_length w c = column_max_length ws c"
    and "max_row w = max_row ws" and "max_column w = max_column ws"
proof -
  have texts: "cell_text w = cell_text ws"
    using assms by (intro ext) (simp add: cell_text_def value_at_def get_cell_def)
  show rows: "max_row w = max_row ws"
    using assms by (simp add: max_row_def)
  show "max_column w = max_column ws"
    using assms by (simp add: max_column_def)
  show "column_max_length w c = column_max_length ws c"
    by (simp only: column_max_length_def texts rows)
qed

lemma width_fold:
  assumes "cells w = cells ws"
  shows "map_of (column_widths (fold (\<lambda>c w. set_width w c (min (column_max_length w c + 2) 50)) cs w)) c
         = (if c \<in> set cs then Some (min (column_max_length ws c + 2) 50)
            else map_of (column_widths w) c)"
  using assms
proof (induction cs arbitrary: w)
  case Nil
  show ?case by simp
next
  case (Cons c' cs)
  have same: "cells (set_width w c' (min (column_max_length w c' + 2) 50)) = cells ws"
    using Cons.prems by (simp add: cells_set_width)
  show ?case
    using Cons.IH [OF same] cells_determine(1) [OF Cons.prems]
    by (auto simp add: set_width_def update_conv')
qed

lemma width_adjust_column_widths:
  assumes "c \<in> {1 .. max_column ws}"
  shows "map_of (column_widths (adjust_column_widths ws)) c
           = Some (min (longest_in_column ws c + 2) 50)"
proof -
  have "c \<in> set [1 ..< max_column ws + 1]"
    using assms by auto
  then have "map_of (column_widths
             (fold (\<lambda>c w. set_width w c (min (column_max_length w c + 2) 50))
                [1 ..< max_column ws + 1] ws)) c
           = Some (min (column_max_length ws c + 2) 50)"
    by (simp only: width_fold [OF refl] if_True)
  then show ?thesis
    unfolding adjust_column_widths_def by (simp only: column_max_length_longest)
qed

lemma longest_in_column_cells:
  "cells w = cells ws \<Longrightarrow> longest_in_column w c = longest_in_column ws c"
  using cells_determine(1) [of w ws c] by (simp add: column_max_length_longest)

text \<open>
  Claim C9, as stated, fails. It says that a column's width is the length of its longest
  stringified cell value, capped at 50. The renderer adds 2 to that length before it caps:
  for \<^verbatim>\<open>{"items":[{"name":"A","price":1},{"name":"B","price":2}]}\<close> the longest value
  of column A is the title, 20 characters, and the width of the column is 22.
\<close>

theorem column_width_not_longest_counterexample:
  "longest_in_column (excel_sheet demo_env items_data ''p'') 1 = 20
   \<and> length ''Web Scraping Results'' = 20
   \<and> map_of (column_widths (excel_sheet demo_env items_data ''p'')) 1 = Some 22
   \<and> (22 :: nat) \<noteq> min 20 50"
  by code_simp

text \<open>
  Claim C9, amended. After the spreadsheet renderer has placed all data, the width of
  every column from 1 to the last column in use is the length of the longest stringified
  cell value of the column, over the rows 1 to the last row in use, plus 2, capped at 50.
  A cell of those rows that was never written has the value \<^verbatim>\<open>None\<close> and counts with the
  four characters of its string. In the example the third column holds only \<^verbatim>\<open>c\<close>
  and \<^verbatim>\<open>3\<close> below six empty rows: its longest value is \<^verbatim>\<open>None\<close> and its width is 6.
\<close>

theorem column_width_padded:
  "\<forall>c \<in> {1 .. max_column (excel_sheet e data prompt)}.
     map_of (column_widths (excel_sheet e data prompt)) c
       = Some (min (longest_in_column (excel_sheet e data prompt) c + 2) 50)"
proof
  fix c assume c: "c \<in> {1 .. max_column (excel_sheet e data prompt)}"
  have same: "cells (excel_sheet e data prompt) = cells (excel_data_sheet e data prompt)"
    by (simp add: excel_sheet_def cells_adjust_column_widths)
  have "c \<in> {1 .. max_column (excel_data_sheet e data prompt)}"
    using c cells_determine(3) [OF same] by simp
  then show "map_of (column_widths (excel_sheet e data prompt)) c
       = Some (min (longest_in_column (excel_sheet e data prompt) c + 2) 50)"
    using width_adjust_column_widths [of c "excel_data_sheet e data prompt"]
      longest_in_column_cells [OF same]
    by (simp add: excel_sheet_def)
qed

theorem column_width_padded_witness:
  "max_column (excel_sheet demo_env narrow_data ''p'') = 3
   \<and> longest_in_column (excel_sheet demo_env narrow_data ''p'') 1 = 20
   \<and> map_of (column_widths (excel_sheet demo_env narrow_data ''p'')) 1 = Some 22
   \<and> longest_in_column (excel_sheet demo_env narrow_data ''p'') 3 = 4
   \<and> map (\<lambda>r. cell_text (excel_sheet demo_env narrow_data ''p'') r 3) [1, 7, 8] = [''None'', ''c'', ''3'']
   \<and> map_of (column_widths (excel_sheet demo_env narrow_data ''p'')) 3 = Some 6"
proof -
  have cols: "max_column (excel_sheet demo_env narrow_data ''p'') = 3"
    and l1: "longest_in_column (excel_sheet demo_env narrow_data ''p'') 1 = 20"
    and l3: "longest_in_column (excel_sheet demo_env narrow_data ''p'') 3 = 4"
    and texts: "map (\<lambda>r. cell_text (excel_sheet demo_env narrow_data ''p'') r 3) [1, 7, 8] = [''None'', ''c'', ''3'']"
    by code_simp+
  have in1: "1 \<in> {1 .. max_column (excel_sheet demo_env narrow_data ''p'')}"
    and in3: "3 \<in> {1 .. max_column (excel_sheet demo_env narrow_data ''p'')}"
    using cols by simp_all
  show ?thesis
    using column_width_padded [of demo_env narrow_data "''p''", rule_format, OF in1]
      column_width_padded [of demo_env narrow_data "''p''", rule_format, OF in3]
      cols l1 l3 texts
    by simp
qed

section \<open>What the cleanup sweep deletes\<close>











end
